theory Spec2Isabelle
  imports Main "HOL-Library.Word"
begin

section \<open>Go error values\<close>

text \<open>
  The facade inspects the errors handed to \<open>End\<close> through three library calls:
  \<open>errors.Is(err, context.Canceled)\<close>, \<open>status.Code(err)\<close> and \<open>err.Error()\<close>.
  A non-nil Go \<open>error\<close> is modelled as a tree: the two sentinels of package \<open>context\<close>,
  an \<open>errors.New\<close> value, a gRPC status error, a wrapper with one wrapped error
  (what \<open>fmt.Errorf\<close> with one \<open>%w\<close> builds; the wrapper carries its whole message) and
  an \<open>errors.Join\<close> value. A nil \<open>error\<close> is \<open>None\<close> of \<open>go_error option\<close>.
\<close>

datatype grpc_code =
    grpccodes_OK
  | grpccodes_Canceled
  | grpccodes_Unknown
  | grpccodes_InvalidArgument
  | grpccodes_DeadlineExceeded
  | grpccodes_NotFound
  | grpccodes_AlreadyExists
  | grpccodes_PermissionDenied
  | grpccodes_ResourceExhausted
  | grpccodes_FailedPrecondition
  | grpccodes_Aborted
  | grpccodes_OutOfRange
  | grpccodes_Unimplemented
  | grpccodes_Internal
  | grpccodes_Unavailable
  | grpccodes_DataLoss
  | grpccodes_Unauthenticated

datatype context_error = context_Canceled | context_DeadlineExceeded

datatype go_error =
    ContextError context_error
  | ErrorString string
  | StatusError grpc_code string
  | WrapError string go_error
  | JoinError "go_error list"

fun grpc_code_String :: "grpc_code \<Rightarrow> string" where
  "grpc_code_String grpccodes_OK = ''OK''"
| "grpc_code_String grpccodes_Canceled = ''Canceled''"
| "grpc_code_String grpccodes_Unknown = ''Unknown''"
| "grpc_code_String grpccodes_InvalidArgument = ''InvalidArgument''"
| "grpc_code_String grpccodes_DeadlineExceeded = ''DeadlineExceeded''"
| "grpc_code_String grpccodes_NotFound = ''NotFound''"
| "grpc_code_String grpccodes_AlreadyExists = ''AlreadyExists''"
| "grpc_code_String grpccodes_PermissionDenied = ''PermissionDenied''"
| "grpc_code_String grpccodes_ResourceExhausted = ''ResourceExhausted''"
| "grpc_code_String grpccodes_FailedPrecondition = ''FailedPrecondition''"
| "grpc_code_String grpccodes_Aborted = ''Aborted''"
| "grpc_code_String grpccodes_OutOfRange = ''OutOfRange''"
| "grpc_code_String grpccodes_Unimplemented = ''Unimplemented''"
| "grpc_code_String grpccodes_Internal = ''Internal''"
| "grpc_code_String grpccodes_Unavailable = ''Unavailable''"
| "grpc_code_String grpccodes_DataLoss = ''DataLoss''"
| "grpc_code_String grpccodes_Unauthenticated = ''Unauthenticated''"

text \<open>\<open>err.Error()\<close>: the message of an error. A joined error prints its parts one per line.\<close>

fun join_lines :: "string list \<Rightarrow> string" where
  "join_lines [] = []"
| "join_lines [l] = l"
| "join_lines (l # ls) = l @ [CHR 0x0A] @ join_lines ls"

fun error_Error :: "go_error \<Rightarrow> string" where
  "error_Error (ContextError context_Canceled) = ''context canceled''"
| "error_Error (ContextError context_DeadlineExceeded) = ''context deadline exceeded''"
| "error_Error (ErrorString msg) = msg"
| "error_Error (StatusError c msg) =
     ''rpc error: code = '' @ grpc_code_String c @ '' desc = '' @ msg"
| "error_Error (WrapError msg e) = msg"
| "error_Error (JoinError es) = join_lines (map error_Error es)"

text \<open>
  \<open>errors.Is(err, target)\<close> for a sentinel of package \<open>context\<close>: the error tree is
  walked depth first, through \<open>Unwrap() error\<close> and \<open>Unwrap() []error\<close>, and some
  node must be the sentinel itself. An \<open>errors.New\<close> value with the same text is a
  different value, and a status error matches status errors only.
\<close>

fun errors_Is :: "go_error \<Rightarrow> context_error \<Rightarrow> bool" where
  "errors_Is (ContextError c) target = (c = target)"
| "errors_Is (ErrorString msg) target = False"
| "errors_Is (StatusError c msg) target = False"
| "errors_Is (WrapError msg e) target = errors_Is e target"
| "errors_Is (JoinError es) target = list_ex (\<lambda>e. errors_Is e target) es"

text \<open>
  \<open>status.Code(err)\<close> for a non-nil error: the code of the first gRPC status found in
  the tree (the error itself, or what \<open>errors.As\<close> finds below it), \<open>Unknown\<close> when the
  tree holds none.
\<close>

fun grpc_status :: "go_error \<Rightarrow> grpc_code option"
  and grpc_status_first :: "go_error list \<Rightarrow> grpc_code option" where
  "grpc_status (ContextError c) = None"
| "grpc_status (ErrorString msg) = None"
| "grpc_status (StatusError c msg) = Some c"
| "grpc_status (WrapError msg e) = grpc_status e"
| "grpc_status (JoinError es) = grpc_status_first es"
| "grpc_status_first [] = None"
| "grpc_status_first (e # es) =
     (case grpc_status e of Some c \<Rightarrow> Some c | None \<Rightarrow> grpc_status_first es)"

definition status_Code :: "go_error \<Rightarrow> grpc_code" where
  "status_Code err = (case grpc_status err of Some c \<Rightarrow> c | None \<Rightarrow> grpccodes_Unknown)"

text \<open>The constructors of the standard library that the package calls.\<close>

definition errors_New :: "string \<Rightarrow> go_error" where
  "errors_New msg = ErrorString msg"

definition fmt_Errorf_w :: "string \<Rightarrow> go_error \<Rightarrow> go_error" where
  \<comment> \<open>\<open>fmt.Errorf(prefix + "%w", err)\<close>\<close>
  "fmt_Errorf_w prefix err = WrapError (prefix @ error_Error err) err"

definition errors_Join :: "go_error list \<Rightarrow> go_error option" where
  \<comment> \<open>\<open>errors.Join(errs...)\<close> on a slice that holds no nil entry: nil when the slice is empty.\<close>
  "errors_Join errs = (if errs = [] then None else Some (JoinError errs))"

section \<open>Attributes\<close>

text \<open>
  \<open>attribute.KeyValue\<close> of the tracing runtime: a key and a typed value. An integer
  attribute is 64 bits wide whatever the width of the Go value it came from; a float is
  held by its IEEE bits.
\<close>

datatype attribute_value =
    BOOL bool
  | INT64 "64 word"
  | FLOAT64 "64 word"
  | STRING string
  | INT64SLICE "64 word list"
  | STRINGSLICE "string list"

datatype attribute_type =
    type_BOOL | type_INT64 | type_FLOAT64 | type_STRING | type_INT64SLICE | type_STRINGSLICE

fun attribute_Type :: "attribute_value \<Rightarrow> attribute_type" where
  "attribute_Type (BOOL b) = type_BOOL"
| "attribute_Type (INT64 i) = type_INT64"
| "attribute_Type (FLOAT64 f) = type_FLOAT64"
| "attribute_Type (STRING s) = type_STRING"
| "attribute_Type (INT64SLICE is) = type_INT64SLICE"
| "attribute_Type (STRINGSLICE ss) = type_STRINGSLICE"

record key_value =
  attr_key :: string
  attr_value :: attribute_value

section \<open>Options\<close>

text \<open>
  \<open>time.Duration\<close> is an \<open>int64\<close>. The three keepalive fields of \<open>Options\<close> are
  pointers, nil until an option sets them: \<open>None\<close> is nil.
\<close>

type_synonym duration = "64 word"

record Options =
  keepaliveTime :: "duration option"
  keepaliveTimeout :: "duration option"
  keepalivePermitWithoutStream :: "bool option"
  host :: string
  port :: "16 word"
  noop :: bool

text \<open>
  An \<open>Option\<close> is a closure \<open>func(opts *Options)\<close>. The package builds them with six
  constructors only, each capturing its argument, so a closure is held as the
  constructor that made it together with the captured value, and \<open>apply_Option\<close> is
  its body.
\<close>

datatype Option =
    Noop
  | WithCollectorHost string
  | WithCollectorPort "16 word"
  | WithKeepaliveTime duration
  | WithKeepaliveTimeout duration
  | WithKeepalivePermitWithoutStream bool

fun apply_Option :: "Option \<Rightarrow> Options \<Rightarrow> Options" where
  "apply_Option Noop opts = opts\<lparr>noop := True\<rparr>"
| "apply_Option (WithCollectorHost h) opts = opts\<lparr>host := h\<rparr>"
| "apply_Option (WithCollectorPort p) opts = opts\<lparr>port := p\<rparr>"
| "apply_Option (WithKeepaliveTime val) opts = opts\<lparr>keepaliveTime := Some val\<rparr>"
| "apply_Option (WithKeepaliveTimeout val) opts = opts\<lparr>keepaliveTimeout := Some val\<rparr>"
| "apply_Option (WithKeepalivePermitWithoutStream val) opts =
     opts\<lparr>keepalivePermitWithoutStream := Some val\<rparr>"

definition defaultOptions :: "Option list" where
  "defaultOptions = [WithCollectorHost ''localhost'', WithCollectorPort 4317]"

definition Options_zero :: Options where
  \<comment> \<open>\<open>Options{}\<close>\<close>
  "Options_zero = \<lparr>keepaliveTime = None, keepaliveTimeout = None,
     keepalivePermitWithoutStream = None, host = [], port = 0, noop = False\<rparr>"

fun range_apply :: "Option list \<Rightarrow> Options \<Rightarrow> Options" where
  "range_apply [] options = options"
| "range_apply (opt # opts) options = range_apply opts (apply_Option opt options)"

definition buildOptions :: "Option list \<Rightarrow> Options" where
  "buildOptions opts = range_apply (defaultOptions @ opts) Options_zero"

text \<open>\<open>%d\<close> of an unsigned number.\<close>

definition digit_char :: "nat \<Rightarrow> char" where
  "digit_char d = ''0123456789'' ! d"

fun decimal :: "nat \<Rightarrow> string" where
  "decimal n = (if n < 10 then [digit_char n] else decimal (n div 10) @ [digit_char (n mod 10)])"

declare decimal.simps [simp del]

definition GetGrpcTarget :: "Options \<Rightarrow> string" where
  "GetGrpcTarget options = host options @ '':'' @ decimal (unat (port options))"

definition IsNoop :: "Options \<Rightarrow> bool" where
  "IsNoop options = noop options"

section \<open>The gRPC connection and the exporter\<close>

datatype credentials = insecure_NewCredentials

record ClientParameters =
  cp_Time :: duration
  cp_Timeout :: duration
  cp_PermitWithoutStream :: bool

definition ClientParameters_zero :: ClientParameters where
  "ClientParameters_zero = \<lparr>cp_Time = 0, cp_Timeout = 0, cp_PermitWithoutStream = False\<rparr>"

datatype dial_option =
    WithTransportCredentials credentials
  | WithKeepaliveParams ClientParameters

definition grpcDialOptions :: "Options \<Rightarrow> dial_option list" where
  "grpcDialOptions options =
     (let opts = [WithTransportCredentials insecure_NewCredentials];
          useKeepalive = False;
          keepaliveClientParameters = ClientParameters_zero;
          (useKeepalive, keepaliveClientParameters) =
            (case keepaliveTime options of
               Some v \<Rightarrow> (True, keepaliveClientParameters\<lparr>cp_Time := v\<rparr>)
             | None \<Rightarrow> (useKeepalive, keepaliveClientParameters));
          (useKeepalive, keepaliveClientParameters) =
            (case keepaliveTimeout options of
               Some v \<Rightarrow> (True, keepaliveClientParameters\<lparr>cp_Timeout := v\<rparr>)
             | None \<Rightarrow> (useKeepalive, keepaliveClientParameters));
          (useKeepalive, keepaliveClientParameters) =
            (case keepalivePermitWithoutStream options of
               Some v \<Rightarrow> (True, keepaliveClientParameters\<lparr>cp_PermitWithoutStream := v\<rparr>)
             | None \<Rightarrow> (useKeepalive, keepaliveClientParameters))
      in if useKeepalive then opts @ [WithKeepaliveParams keepaliveClientParameters]
         else opts)"

record conn =
  conn_target :: string
  conn_opts :: "dial_option list"

record exporter =
  exporter_conn :: conn

record resource =
  res_schemaURL :: string
  res_attributes :: "key_value list"

record tracer_provider =
  tp_batcher :: exporter
  tp_resource :: resource

section \<open>The underlying span\<close>

text \<open>
  \<open>trace.Span\<close> belongs to the tracing runtime. The facade only calls its methods, so
  the underlying span is modelled by the tracer that started it, its name, its start
  options and the sequence of method calls made on it so far, oldest first. What a
  runtime makes of a call (status precedence, dropping calls on a span that does not
  record) is the runtime's business and is not modelled.
\<close>

type_synonym time = int

datatype status_code = codes_Unset | codes_Error | codes_Ok

datatype event_option = WithTimestamp time | WithAttributes "key_value list"

datatype span_start_option = WithNewRoot | WithStartTimestamp time

datatype span_call =
    call_SetAttributes "key_value list"
  | call_AddEvent string "event_option list"
  | call_SetStatus status_code string
  | call_RecordError "go_error option"
  | call_End

datatype tracer = NoopTracer string | ProviderTracer tracer_provider string

record otel_span =
  span_tracer :: tracer
  span_name :: string
  span_start_opts :: "span_start_option list"
  span_calls :: "span_call list"

definition invoke :: "otel_span \<Rightarrow> span_call \<Rightarrow> otel_span" where
  "invoke sp c = sp\<lparr>span_calls := span_calls sp @ [c]\<rparr>"

section \<open>The span facade\<close>

text \<open>\<open>type span struct { s trace.Span }\<close>\<close>

record span =
  span_s :: otel_span

definition on_s :: "span \<Rightarrow> span_call \<Rightarrow> span" where
  "on_s s c = s\<lparr>span_s := invoke (span_s s) c\<rparr>"

definition calls_of :: "span \<Rightarrow> span_call list" where
  "calls_of s = span_calls (span_s s)"

subsection \<open>Tag\<close>

text \<open>
  The dynamic values that \<open>Tag\<close> can receive through \<open>any\<close>. The types named in the
  type switch each have a constructor; an \<open>int\<close> is held sign-extended to 64 bits (what
  \<open>int64(v)\<close> yields), a float by its IEEE bits. \<open>Int32_value\<close> and \<open>Float32_value\<close> are
  values of the types \<open>int32\<close> and \<open>float32\<close>. \<open>Stringer_value\<close> is a value of any other
  type that has a \<open>String() string\<close> method, with what the method returns;
  \<open>Other_value\<close> is a value of any other type without one, under its type's name.
\<close>

datatype go_value =
    Nil_value
  | Int_value "64 word"
  | String_value string
  | Float64_value "64 word"
  | Int64_value "64 word"
  | Bool_value bool
  | StringSlice_value "string list"
  | IntSlice_value "64 word list"
  | Int32_value "32 word"
  | Float32_value "32 word"
  | Stringer_value string
  | Other_value string

definition attribute_Int :: "string \<Rightarrow> 64 word \<Rightarrow> key_value" where
  "attribute_Int k v = \<lparr>attr_key = k, attr_value = INT64 v\<rparr>"

definition attribute_String :: "string \<Rightarrow> string \<Rightarrow> key_value" where
  "attribute_String k v = \<lparr>attr_key = k, attr_value = STRING v\<rparr>"

definition attribute_Float64 :: "string \<Rightarrow> 64 word \<Rightarrow> key_value" where
  "attribute_Float64 k v = \<lparr>attr_key = k, attr_value = FLOAT64 v\<rparr>"

definition attribute_Int64 :: "string \<Rightarrow> 64 word \<Rightarrow> key_value" where
  "attribute_Int64 k v = \<lparr>attr_key = k, attr_value = INT64 v\<rparr>"

definition attribute_Bool :: "string \<Rightarrow> bool \<Rightarrow> key_value" where
  "attribute_Bool k v = \<lparr>attr_key = k, attr_value = BOOL v\<rparr>"

definition attribute_StringSlice :: "string \<Rightarrow> string list \<Rightarrow> key_value" where
  "attribute_StringSlice k v = \<lparr>attr_key = k, attr_value = STRINGSLICE v\<rparr>"

definition attribute_IntSlice :: "string \<Rightarrow> 64 word list \<Rightarrow> key_value" where
  "attribute_IntSlice k v = \<lparr>attr_key = k, attr_value = INT64SLICE v\<rparr>"

definition attribute_Stringer :: "string \<Rightarrow> string \<Rightarrow> key_value" where
  \<comment> \<open>the second argument is the result of the value's \<open>String()\<close>\<close>
  "attribute_Stringer k str = \<lparr>attr_key = k, attr_value = STRING str\<rparr>"

fun Tag :: "span \<Rightarrow> string \<Rightarrow> go_value \<Rightarrow> span" where
  "Tag s key (Int_value v) = on_s s (call_SetAttributes [attribute_Int key v])"
| "Tag s key (String_value v) = on_s s (call_SetAttributes [attribute_String key v])"
| "Tag s key (Float64_value v) = on_s s (call_SetAttributes [attribute_Float64 key v])"
| "Tag s key (Int64_value v) = on_s s (call_SetAttributes [attribute_Int64 key v])"
| "Tag s key (Bool_value v) = on_s s (call_SetAttributes [attribute_Bool key v])"
| "Tag s key (StringSlice_value v) = on_s s (call_SetAttributes [attribute_StringSlice key v])"
| "Tag s key (IntSlice_value v) = on_s s (call_SetAttributes [attribute_IntSlice key v])"
| "Tag s key (Stringer_value str) = on_s s (call_SetAttributes [attribute_Stringer key str])"
| "Tag s key _ = s"

subsection \<open>SetStatus, AddEvent, RecordError\<close>

definition SetStatus :: "span \<Rightarrow> status_code \<Rightarrow> string \<Rightarrow> span" where
  "SetStatus s code description = on_s s (call_SetStatus code description)"

definition AddEvent :: "span \<Rightarrow> string \<Rightarrow> event_option list \<Rightarrow> span" where
  "AddEvent s name opts = on_s s (call_AddEvent name opts)"

definition RecordError :: "span \<Rightarrow> go_error option \<Rightarrow> span" where
  "RecordError s err = on_s s (call_RecordError err)"

subsection \<open>End\<close>

text \<open>
  An argument of \<open>End\<close> is a \<open>*error\<close>: a nil pointer, or a pointer to an error variable
  whose value, read when \<open>End\<close> runs, is nil or an error. \<open>now\<close> is what \<open>time.Now()\<close>
  returns during the call.
\<close>

datatype error_ptr = nil_ptr | ptr_to "go_error option"

definition handleError :: "span \<Rightarrow> time \<Rightarrow> go_error \<Rightarrow> span" where
  "handleError s now err =
     (if errors_Is err context_Canceled \<or> status_Code err = grpccodes_Canceled
      then on_s s (call_AddEvent ''canceled'' [WithTimestamp now])
      else on_s s (call_SetStatus codes_Error (error_Error err)))"

fun End_range :: "span \<Rightarrow> time \<Rightarrow> error_ptr list \<Rightarrow> span" where
  "End_range s now [] = s"
| "End_range s now (ptr_to (Some err) # errs) = handleError s now err"
| "End_range s now (p # errs) = End_range s now errs"

definition End :: "span \<Rightarrow> time \<Rightarrow> error_ptr list \<Rightarrow> span" where
  "End s now errs = on_s (End_range s now errs) call_End"

section \<open>The process-wide tracer\<close>

text \<open>
  The package variable \<open>tracer\<close> (nil until \<open>Init\<close> succeeds) and the two globals
  of the tracing runtime that \<open>Init\<close> sets are the fields of \<open>world\<close>. The calls that
  reach the network or the export pipeline are logged in \<open>effects\<close>, oldest first.
  Whether such a call fails is not decided by this package: \<open>env\<close> holds the error each
  of them returns (\<open>None\<close> for nil).
\<close>

datatype propagator = propagation_TraceContext

datatype effect =
    grpc_NewClient string "dial_option list"
  | conn_Connect conn
  | otlptracegrpc_New conn
  | tp_Shutdown tracer_provider
  | conn_Close conn

record world =
  tracer :: "tracer option"
  otel_TracerProvider :: "tracer_provider option"
  otel_TextMapPropagator :: "propagator option"
  effects :: "effect list"

record env =
  NewClient_err :: "string \<Rightarrow> dial_option list \<Rightarrow> go_error option"
  otlp_New_err :: "go_error option"
  Shutdown_err :: "go_error option"
  Close_err :: "go_error option"

definition noop_NewTracerProvider_Tracer :: "string \<Rightarrow> tracer" where
  \<comment> \<open>\<open>noop.NewTracerProvider().Tracer(name)\<close>\<close>
  "noop_NewTracerProvider_Tracer name = NoopTracer name"

definition otel_Tracer :: "world \<Rightarrow> string \<Rightarrow> tracer" where
  \<comment> \<open>\<open>otel.Tracer(name)\<close>: a tracer of the global provider; before one is set, a tracer
     that records nothing\<close>
  "otel_Tracer w name =
     (case otel_TracerProvider w of
        Some tp \<Rightarrow> ProviderTracer tp name
      | None \<Rightarrow> NoopTracer name)"

definition perform :: "world \<Rightarrow> effect \<Rightarrow> world" where
  "perform w e = w\<lparr>effects := effects w @ [e]\<rparr>"

record Context =
  ctx_span :: "otel_span option"

subsection \<open>makeGrpcExporter\<close>

text \<open>
  The closure that \<open>makeGrpcExporter\<close> returns captures the connection. A
  \<open>func() error\<close> can be nil, and \<open>Init\<close>'s shutdown procedure tests it, so the
  closer travels as an option.
\<close>

datatype closer = closer_of conn

definition call_closer :: "env \<Rightarrow> world \<Rightarrow> closer \<Rightarrow> world \<times> go_error option" where
  "call_closer ev w cl =
     (case cl of closer_of c \<Rightarrow>
        (perform w (conn_Close c),
         case Close_err ev of
           Some err \<Rightarrow> Some (fmt_Errorf_w ''failed to close tracer connection: '' err)
         | None \<Rightarrow> None))"

definition makeGrpcExporter ::
  "env \<Rightarrow> world \<Rightarrow> Context \<Rightarrow> Options \<Rightarrow> world \<times> (go_error + exporter \<times> closer option)" where
  "makeGrpcExporter ev w ctx options =
     (let target = GetGrpcTarget options;
          dial = grpcDialOptions options;
          w1 = perform w (grpc_NewClient target dial)
      in case NewClient_err ev target dial of
           Some err \<Rightarrow> (w1, Inl (fmt_Errorf_w ''trace collector connection error: '' err))
         | None \<Rightarrow>
             (let c = \<lparr>conn_target = target, conn_opts = dial\<rparr>;
                  w2 = perform w1 (conn_Connect c);
                  w3 = perform w2 (otlptracegrpc_New c)
              in case otlp_New_err ev of
                   Some err \<Rightarrow> (w3, Inl (fmt_Errorf_w ''failed to create exporter: '' err))
                 | None \<Rightarrow> (w3, Inr (\<lparr>exporter_conn = c\<rparr>, Some (closer_of c)))))"

subsection \<open>Init\<close>

text \<open>
  \<open>Init\<close> returns a shutdown procedure or an error, never both. The two closures it can
  return are the two constructors of \<open>shutdown_fn\<close>; the second captures the tracer
  provider and the closer. \<open>call_shutdown\<close> is the body of the closure.
\<close>

datatype shutdown_fn =
    shutdown_noop
  | shutdown_provider tracer_provider "closer option"

definition semconv_SchemaURL :: string where
  "semconv_SchemaURL = ''https://opentelemetry.io/schemas/1.27.0''"

definition semconv_ServiceName :: "string \<Rightarrow> key_value" where
  "semconv_ServiceName v = \<lparr>attr_key = ''service.name'', attr_value = STRING v\<rparr>"

definition semconv_ServiceVersion :: "string \<Rightarrow> key_value" where
  "semconv_ServiceVersion v = \<lparr>attr_key = ''service.version'', attr_value = STRING v\<rparr>"

definition Init ::
  "env \<Rightarrow> world \<Rightarrow> Context \<Rightarrow> string \<Rightarrow> string \<Rightarrow> Option list \<Rightarrow> world \<times> (go_error + shutdown_fn)" where
  "Init ev w ctx appName version opts =
     (if tracer w \<noteq> None then (w, Inl (errors_New ''tracer already initialized''))
      else
        let options = buildOptions opts
        in if IsNoop options
           then (w\<lparr>tracer := Some (noop_NewTracerProvider_Tracer [])\<rparr>, Inr shutdown_noop)
           else
             (case makeGrpcExporter ev w ctx options of
                (w1, Inl err) \<Rightarrow> (w1, Inl err)
              | (w1, Inr (exporter, closer)) \<Rightarrow>
                  (let tp = \<lparr>tp_batcher = exporter,
                             tp_resource = \<lparr>res_schemaURL = semconv_SchemaURL,
                               res_attributes = [semconv_ServiceName appName,
                                                 semconv_ServiceVersion version]\<rparr>\<rparr>;
                       w2 = w1\<lparr>otel_TracerProvider := Some tp\<rparr>;
                       w3 = w2\<lparr>otel_TextMapPropagator := Some propagation_TraceContext\<rparr>;
                       w4 = w3\<lparr>tracer := Some (otel_Tracer w3 [])\<rparr>
                   in (w4, Inr (shutdown_provider tp closer)))))"

fun call_shutdown :: "env \<Rightarrow> world \<Rightarrow> shutdown_fn \<Rightarrow> Context \<Rightarrow> world \<times> go_error option" where
  "call_shutdown ev w shutdown_noop ctx = (w, None)"
| "call_shutdown ev w (shutdown_provider tp closer) ctx =
     (let errs = [];
          w1 = perform w (tp_Shutdown tp);
          errs = (case Shutdown_err ev of
                    Some err \<Rightarrow> errs @ [fmt_Errorf_w ''failed to shutdown tracer provider: '' err]
                  | None \<Rightarrow> errs);
          (w2, errs) =
            (case closer of
               None \<Rightarrow> (w1, errs)
             | Some cl \<Rightarrow>
                 (case call_closer ev w1 cl of
                    (w2, Some err) \<Rightarrow> (w2, errs @ [err])
                  | (w2, None) \<Rightarrow> (w2, errs)))
      in (w2, errors_Join errs))"

subsection \<open>StartSpan\<close>

text \<open>
  \<open>Start\<close> is a method of the interface \<open>trace.Tracer\<close>: called on a nil interface
  value it panics, on a tracer it returns the context carrying the new span, and the
  span. \<open>StartSpan\<close> is the only caller.
\<close>

datatype panic = nil_pointer_dereference

definition tracer_Start ::
  "tracer option \<Rightarrow> Context \<Rightarrow> string \<Rightarrow> span_start_option list \<Rightarrow> panic + Context \<times> otel_span" where
  "tracer_Start t ctx name opts =
     (case t of
        None \<Rightarrow> Inl nil_pointer_dereference
      | Some tr \<Rightarrow>
          (let sp = \<lparr>span_tracer = tr, span_name = name, span_start_opts = opts,
                     span_calls = []\<rparr>
           in Inr (ctx\<lparr>ctx_span := Some sp\<rparr>, sp)))"

definition StartSpan ::
  "world \<Rightarrow> Context \<Rightarrow> string \<Rightarrow> span_start_option list \<Rightarrow> panic + Context \<times> span" where
  "StartSpan w ctx name opts =
     (let started =
            (if tracer w = None
             then tracer_Start (Some (noop_NewTracerProvider_Tracer ''noop'')) ctx name opts
             else tracer_Start (tracer w) ctx name opts)
      in case started of
           Inl p \<Rightarrow> Inl p
         | Inr (ctx', sp) \<Rightarrow> Inr (ctx', \<lparr>span_s = sp\<rparr>))"

section \<open>Notions used in the statements\<close>

text \<open>
  Following the words of the specification, not the code: the kinds of value that
  \<open>Tag\<close> is said to support, each with the attribute type said to match it. Signed
  integers of 32 and of 64 bits, and floating point numbers, are named without
  restriction, so \<open>int32\<close> and \<open>float32\<close> are among them.
\<close>

fun spec_attribute_type :: "go_value \<Rightarrow> attribute_type option" where
  "spec_attribute_type (Int32_value v) = Some type_INT64"
| "spec_attribute_type (Int_value v) = Some type_INT64"
| "spec_attribute_type (Int64_value v) = Some type_INT64"
| "spec_attribute_type (String_value v) = Some type_STRING"
| "spec_attribute_type (Float32_value v) = Some type_FLOAT64"
| "spec_attribute_type (Float64_value v) = Some type_FLOAT64"
| "spec_attribute_type (Bool_value v) = Some type_BOOL"
| "spec_attribute_type (StringSlice_value v) = Some type_STRINGSLICE"
| "spec_attribute_type (IntSlice_value v) = Some type_INT64SLICE"
| "spec_attribute_type (Stringer_value str) = Some type_STRING"
| "spec_attribute_type Nil_value = None"
| "spec_attribute_type (Other_value ty) = None"

definition Tag_as_specified :: "span \<Rightarrow> string \<Rightarrow> go_value \<Rightarrow> bool" where
  "Tag_as_specified s key v =
     (case spec_attribute_type v of
        Some t \<Rightarrow>
          (case drop (length (calls_of s)) (calls_of (Tag s key v)) of
             [call_SetAttributes [a]] \<Rightarrow> attr_key a = key \<and> attribute_Type (attr_value a) = t
           | _ \<Rightarrow> False)
      | None \<Rightarrow> Tag s key v = s)"

text \<open>The options that switch keepalive on, and the resolved options that have it on.\<close>

fun is_keepalive_Option :: "Option \<Rightarrow> bool" where
  "is_keepalive_Option (WithKeepaliveTime val) = True"
| "is_keepalive_Option (WithKeepaliveTimeout val) = True"
| "is_keepalive_Option (WithKeepalivePermitWithoutStream val) = True"
| "is_keepalive_Option opt = False"

definition uses_keepalive :: "Options \<Rightarrow> bool" where
  "uses_keepalive options \<longleftrightarrow>
     keepaliveTime options \<noteq> None \<or> keepaliveTimeout options \<noteq> None \<or>
     keepalivePermitWithoutStream options \<noteq> None"

text \<open>
  The errors that the two steps of the shutdown procedure contribute, each wrapped the
  way its step wraps it: the provider's first, the connection's second.
\<close>

definition shutdown_errors :: "env \<Rightarrow> go_error list" where
  "shutdown_errors ev =
     (case Shutdown_err ev of
        Some err \<Rightarrow> [fmt_Errorf_w ''failed to shutdown tracer provider: '' err]
      | None \<Rightarrow> []) @
     (case Close_err ev of
        Some err \<Rightarrow> [fmt_Errorf_w ''failed to close tracer connection: '' err]
      | None \<Rightarrow> [])"

subsection \<open>Concrete inputs\<close>

definition span0 :: span where
  "span0 = \<lparr>span_s = \<lparr>span_tracer = NoopTracer ''noop'', span_name = ''op'',
     span_start_opts = [], span_calls = []\<rparr>\<rparr>"

definition world0 :: world where
  "world0 = \<lparr>tracer = None, otel_TracerProvider = None, otel_TextMapPropagator = None,
     effects = []\<rparr>"

definition env_ok :: env where
  "env_ok = \<lparr>NewClient_err = (\<lambda>target dial. None), otlp_New_err = None,
     Shutdown_err = None, Close_err = None\<rparr>"

definition env_failing :: env where
  "env_failing = \<lparr>NewClient_err = (\<lambda>target dial. None), otlp_New_err = None,
     Shutdown_err = Some (ContextError context_DeadlineExceeded),
     Close_err = Some (ErrorString ''connection is closing'')\<rparr>"

definition background :: Context where
  "background = \<lparr>ctx_span = None\<rparr>"

definition conn1 :: conn where
  "conn1 = \<lparr>conn_target = ''localhost:4317'',
     conn_opts = [WithTransportCredentials insecure_NewCredentials]\<rparr>"

definition tp1 :: tracer_provider where
  "tp1 = \<lparr>tp_batcher = \<lparr>exporter_conn = conn1\<rparr>,
     tp_resource = \<lparr>res_schemaURL = semconv_SchemaURL,
       res_attributes = [semconv_ServiceName ''svc'', semconv_ServiceVersion ''1.0'']\<rparr>\<rparr>"

definition world1 :: world where
  "world1 = \<lparr>tracer = Some (ProviderTracer tp1 []), otel_TracerProvider = Some tp1,
     otel_TextMapPropagator = Some propagation_TraceContext,
     effects = [grpc_NewClient ''localhost:4317''
                  [WithTransportCredentials insecure_NewCredentials],
                conn_Connect conn1, otlptracegrpc_New conn1]\<rparr>"

section \<open>Properties of the span facade\<close>

lemma calls_of_on_s: "calls_of (on_s s c) = calls_of s @ [c]"
  by (simp add: calls_of_def on_s_def invoke_def)

lemma calls_of_span0: "calls_of span0 = []"
  by (simp add: span0_def calls_of_def)

subsection \<open>The loop of End\<close>

lemma End_range_skip_nil:
  "\<forall>p\<in>set pre. p = nil_ptr \<or> p = ptr_to None \<Longrightarrow>
   End_range s now (pre @ rest) = End_range s now rest"
  by (induction pre) auto

lemma End_range_all_nil:
  "\<forall>p\<in>set errs. p = nil_ptr \<or> p = ptr_to None \<Longrightarrow> End_range s now errs = s"
  using End_range_skip_nil [of errs s now "[]"] by simp

lemma calls_of_End: "calls_of (End s now errs) = calls_of (End_range s now errs) @ [call_End]"
  by (simp add: End_def calls_of_on_s)

lemma calls_of_handleError:
  "calls_of (handleError s now err) =
     calls_of s @
     [if errors_Is err context_Canceled \<or> status_Code err = grpccodes_Canceled
      then call_AddEvent ''canceled'' [WithTimestamp now]
      else call_SetStatus codes_Error (error_Error err)]"
  by (simp add: handleError_def calls_of_on_s)

lemma calls_of_End_single:
  "calls_of (End s now [ptr_to (Some err)]) =
     calls_of s @
     [if errors_Is err context_Canceled \<or> status_Code err = grpccodes_Canceled
      then call_AddEvent ''canceled'' [WithTimestamp now]
      else call_SetStatus codes_Error (error_Error err),
      call_End]"
  by (simp add: calls_of_End calls_of_handleError)

text \<open>
  C1. When the error handed to \<open>End\<close> is neither a context cancellation nor carries
  the gRPC code \<open>Canceled\<close>, \<open>End\<close> makes two calls on the underlying span, whatever
  the span: \<open>SetStatus(codes.Error, err.Error())\<close> and \<open>End()\<close>. No event is added, so
  no \<open>"canceled"\<close> event.
\<close>

theorem End_failure_sets_error_status:
  assumes "\<not> errors_Is err context_Canceled"
    and "status_Code err \<noteq> grpccodes_Canceled"
  shows "calls_of (End s now [ptr_to (Some err)]) =
         calls_of s @ [call_SetStatus codes_Error (error_Error err), call_End]"
  using assms by (simp add: calls_of_End_single)

theorem End_failure_sets_error_status_witness:
  "\<not> errors_Is (errors_New ''boom'') context_Canceled \<and>
   status_Code (errors_New ''boom'') \<noteq> grpccodes_Canceled \<and>
   calls_of (End span0 1700 [ptr_to (Some (errors_New ''boom''))]) =
     [call_SetStatus codes_Error ''boom'', call_End]"
  using End_failure_sets_error_status [of "errors_New ''boom''" span0 1700]
  by (simp add: errors_New_def status_Code_def calls_of_span0)

text \<open>
  C2. When the error handed to \<open>End\<close> is a cancellation (\<open>errors.Is(err, context.Canceled)\<close>
  holds, or its gRPC code is \<open>Canceled\<close>), \<open>End\<close> adds the event \<open>"canceled"\<close> with the
  timestamp read from the clock during the call, then ends the span, and makes no
  \<open>SetStatus\<close> call.
\<close>

theorem End_cancellation_adds_event:
  assumes "errors_Is err context_Canceled \<or> status_Code err = grpccodes_Canceled"
  shows "calls_of (End s now [ptr_to (Some err)]) =
         calls_of s @ [call_AddEvent ''canceled'' [WithTimestamp now], call_End]"
  using assms by (simp add: calls_of_End_single)

theorem End_cancellation_adds_event_witness:
  "status_Code (fmt_Errorf_w ''fetch: '' (StatusError grpccodes_Canceled ''client went away''))
     = grpccodes_Canceled \<and>
   calls_of (End span0 1700
     [ptr_to (Some (fmt_Errorf_w ''fetch: ''
        (StatusError grpccodes_Canceled ''client went away'')))]) =
     [call_AddEvent ''canceled'' [WithTimestamp 1700], call_End] \<and>
   errors_Is (ContextError context_Canceled) context_Canceled \<and>
   calls_of (End span0 1701 [ptr_to (Some (ContextError context_Canceled))]) =
     [call_AddEvent ''canceled'' [WithTimestamp 1701], call_End]"
  using End_cancellation_adds_event
      [of "fmt_Errorf_w ''fetch: '' (StatusError grpccodes_Canceled ''client went away'')"
        span0 1700]
    End_cancellation_adds_event [of "ContextError context_Canceled" span0 1701]
  by (simp add: fmt_Errorf_w_def status_Code_def calls_of_span0)

text \<open>
  C3. \<open>End\<close> goes through its arguments in order and handles the first pointer that
  is not nil and points to a non-nil error: the nil pointers and pointers to nil
  before it, and everything after it, make no difference. So \<open>End(&errA, &errB)\<close>
  with \<open>errA\<close> nil behaves as \<open>End(&errB)\<close>.
\<close>

theorem End_first_non_nil:
  assumes "\<forall>p\<in>set pre. p = nil_ptr \<or> p = ptr_to None"
  shows "End s now (pre @ ptr_to (Some err) # post) = End s now [ptr_to (Some err)]"
  using assms by (simp add: End_def End_range_skip_nil)

theorem End_first_non_nil_witness:
  "list_all (\<lambda>p. p = nil_ptr \<or> p = ptr_to None) [ptr_to None] \<and>
   End span0 1700 [ptr_to None, ptr_to (Some (ErrorString ''errB''))] =
     End span0 1700 [ptr_to (Some (ErrorString ''errB''))] \<and>
   calls_of (End span0 1700 [ptr_to None, ptr_to (Some (ErrorString ''errB''))]) =
     [call_SetStatus codes_Error ''errB'', call_End]"
  using End_first_non_nil [of "[ptr_to None]" span0 1700 "ErrorString ''errB''" "[]"]
  by (simp add: calls_of_End_single status_Code_def calls_of_span0)

text \<open>
  C4. With no argument, or with arguments that are all nil pointers or pointers to nil,
  \<open>End\<close> makes one call on the underlying span, \<open>End()\<close>: no \<open>SetStatus\<close>, no event, so
  a status set before stands. Whatever the arguments, the calls that \<open>End\<close> makes are at
  most one call that is not \<open>End()\<close>, followed by \<open>End()\<close>: the span is finalized
  exactly once.
\<close>

theorem End_finalizes_once:
  "((\<forall>p\<in>set errs. p = nil_ptr \<or> p = ptr_to None) \<longrightarrow>
      calls_of (End s now errs) = calls_of s @ [call_End]) \<and>
   (\<exists>cs. calls_of (End s now errs) = calls_of s @ cs @ [call_End] \<and>
      call_End \<notin> set cs \<and> length cs \<le> 1)"
proof
  show "(\<forall>p\<in>set errs. p = nil_ptr \<or> p = ptr_to None) \<longrightarrow>
      calls_of (End s now errs) = calls_of s @ [call_End]"
    by (simp add: calls_of_End End_range_all_nil)
next
  have "\<exists>cs. calls_of (End_range s now errs) = calls_of s @ cs \<and>
      call_End \<notin> set cs \<and> length cs \<le> 1"
  proof (induction s now errs rule: End_range.induct)
    case (2 s now err errs)
    then show ?case
      by (simp add: calls_of_handleError)
  qed auto
  then show "\<exists>cs. calls_of (End s now errs) = calls_of s @ cs @ [call_End] \<and>
      call_End \<notin> set cs \<and> length cs \<le> 1"
    by (auto simp add: calls_of_End)
qed

theorem End_finalizes_once_witness:
  "list_all (\<lambda>p. p = nil_ptr \<or> p = ptr_to None) [nil_ptr, ptr_to None] \<and>
   calls_of (End (SetStatus span0 codes_Ok []) 1700 [nil_ptr, ptr_to None]) =
     [call_SetStatus codes_Ok [], call_End] \<and>
   calls_of (End (SetStatus span0 codes_Ok []) 1700 []) =
     [call_SetStatus codes_Ok [], call_End]"
  using End_finalizes_once [of "[nil_ptr, ptr_to None]" "SetStatus span0 codes_Ok []" 1700]
    End_finalizes_once [of "[]" "SetStatus span0 codes_Ok []" 1700]
  by (simp add: SetStatus_def calls_of_on_s calls_of_span0)

text \<open>
  C10. An error for which \<open>errors.Is(err, context.DeadlineExceeded)\<close> holds, and which is
  not a cancellation in either of the two senses that \<open>End\<close> tests, is handled as a
  failure: \<open>SetStatus(codes.Error, err.Error())\<close>, then \<open>End()\<close>, and no event.
\<close>

theorem End_deadline_exceeded_is_failure:
  assumes "errors_Is err context_DeadlineExceeded"
    and "\<not> errors_Is err context_Canceled"
    and "status_Code err \<noteq> grpccodes_Canceled"
  shows "calls_of (End s now [ptr_to (Some err)]) =
         calls_of s @ [call_SetStatus codes_Error (error_Error err), call_End]"
  using assms(2,3) by (simp add: calls_of_End_single)

theorem End_deadline_exceeded_is_failure_witness:
  "errors_Is (fmt_Errorf_w ''query: '' (ContextError context_DeadlineExceeded))
     context_DeadlineExceeded \<and>
   \<not> errors_Is (fmt_Errorf_w ''query: '' (ContextError context_DeadlineExceeded))
     context_Canceled \<and>
   status_Code (fmt_Errorf_w ''query: '' (ContextError context_DeadlineExceeded))
     \<noteq> grpccodes_Canceled \<and>
   calls_of (End span0 1700
     [ptr_to (Some (fmt_Errorf_w ''query: '' (ContextError context_DeadlineExceeded)))]) =
     [call_SetStatus codes_Error ''query: context deadline exceeded'', call_End]"
  using End_deadline_exceeded_is_failure
      [of "fmt_Errorf_w ''query: '' (ContextError context_DeadlineExceeded)" span0 1700]
  by (simp add: fmt_Errorf_w_def status_Code_def calls_of_span0)

subsection \<open>Tag\<close>

text \<open>
  C5, as stated: every value of a supported kind, signed integers of 32 bits among
  them, gets an attribute of the matching type. It fails for an \<open>int32\<close>: the type
  switch of \<open>Tag\<close> has no case for it, and the span is left as it was.
\<close>

theorem Tag_int32_dropped:
  "spec_attribute_type (Int32_value 7) = Some type_INT64 \<and>
   Tag span0 ''user.id'' (Int32_value 7) = span0 \<and>
   \<not> Tag_as_specified span0 ''user.id'' (Int32_value 7)"
  by (simp add: Tag_as_specified_def)

text \<open>
  C5, amended: \<open>Tag\<close> sets one attribute, under the given key and carrying the value,
  when the value's type is \<open>int\<close> or \<open>int64\<close> (an integer attribute), \<open>string\<close>,
  \<open>float64\<close>, \<open>bool\<close>, \<open>[]string\<close>, \<open>[]int\<close>, or a type with a \<open>String\<close> method (a
  string attribute holding what the method returns). For every other value, \<open>nil\<close>,
  \<open>int32\<close> and \<open>float32\<close> included, it calls nothing and the span is unchanged.
\<close>

theorem Tag_by_type:
  "calls_of (Tag s key (Int_value i)) =
     calls_of s @ [call_SetAttributes [\<lparr>attr_key = key, attr_value = INT64 i\<rparr>]] \<and>
   calls_of (Tag s key (String_value str)) =
     calls_of s @ [call_SetAttributes [\<lparr>attr_key = key, attr_value = STRING str\<rparr>]] \<and>
   calls_of (Tag s key (Float64_value f)) =
     calls_of s @ [call_SetAttributes [\<lparr>attr_key = key, attr_value = FLOAT64 f\<rparr>]] \<and>
   calls_of (Tag s key (Int64_value i)) =
     calls_of s @ [call_SetAttributes [\<lparr>attr_key = key, attr_value = INT64 i\<rparr>]] \<and>
   calls_of (Tag s key (Bool_value b)) =
     calls_of s @ [call_SetAttributes [\<lparr>attr_key = key, attr_value = BOOL b\<rparr>]] \<and>
   calls_of (Tag s key (StringSlice_value strs)) =
     calls_of s @ [call_SetAttributes [\<lparr>attr_key = key, attr_value = STRINGSLICE strs\<rparr>]] \<and>
   calls_of (Tag s key (IntSlice_value ints)) =
     calls_of s @ [call_SetAttributes [\<lparr>attr_key = key, attr_value = INT64SLICE ints\<rparr>]] \<and>
   calls_of (Tag s key (Stringer_value text)) =
     calls_of s @ [call_SetAttributes [\<lparr>attr_key = key, attr_value = STRING text\<rparr>]] \<and>
   Tag s key Nil_value = s \<and>
   Tag s key (Int32_value i32) = s \<and>
   Tag s key (Float32_value f32) = s \<and>
   Tag s key (Other_value ty) = s"
  by (simp add: calls_of_on_s attribute_Int_def attribute_String_def attribute_Float64_def
      attribute_Int64_def attribute_Bool_def attribute_StringSlice_def attribute_IntSlice_def
      attribute_Stringer_def)

section \<open>Properties of the tracer lifecycle\<close>

subsection \<open>Keepalive\<close>

lemma grpcDialOptions_eq:
  "grpcDialOptions options =
     WithTransportCredentials insecure_NewCredentials #
     (if uses_keepalive options
      then [WithKeepaliveParams
              \<lparr>cp_Time = (case keepaliveTime options of Some v \<Rightarrow> v | None \<Rightarrow> 0),
               cp_Timeout = (case keepaliveTimeout options of Some v \<Rightarrow> v | None \<Rightarrow> 0),
               cp_PermitWithoutStream =
                 (case keepalivePermitWithoutStream options of Some v \<Rightarrow> v | None \<Rightarrow> False)\<rparr>]
      else [])"
  by (simp add: grpcDialOptions_def uses_keepalive_def ClientParameters_zero_def
      split: option.splits)

lemma uses_keepalive_apply:
  "uses_keepalive (apply_Option opt options) \<longleftrightarrow> is_keepalive_Option opt \<or> uses_keepalive options"
  by (cases opt) (auto simp add: uses_keepalive_def)

lemma uses_keepalive_range_apply:
  "uses_keepalive (range_apply opts options) \<longleftrightarrow>
     (\<exists>opt\<in>set opts. is_keepalive_Option opt) \<or> uses_keepalive options"
  by (induction opts arbitrary: options) (auto simp add: uses_keepalive_apply)

lemma uses_keepalive_buildOptions:
  "uses_keepalive (buildOptions opts) \<longleftrightarrow> (\<exists>opt\<in>set opts. is_keepalive_Option opt)"
  by (simp add: buildOptions_def uses_keepalive_range_apply defaultOptions_def)
     (simp add: uses_keepalive_def Options_zero_def)

text \<open>
  C8. The dial options built from the resolved options hold keepalive parameters if and
  only if one of \<open>WithKeepaliveTime\<close>, \<open>WithKeepaliveTimeout\<close> and
  \<open>WithKeepalivePermitWithoutStream\<close> was among the options given; when none was, the
  dial options are the transport credentials alone, with no keepalive parameters at all.
\<close>

theorem keepalive_iff_supplied:
  "((\<exists>p. WithKeepaliveParams p \<in> set (grpcDialOptions (buildOptions opts))) \<longleftrightarrow>
      (\<exists>opt\<in>set opts. is_keepalive_Option opt)) \<and>
   ((\<forall>opt\<in>set opts. \<not> is_keepalive_Option opt) \<longrightarrow>
      grpcDialOptions (buildOptions opts) = [WithTransportCredentials insecure_NewCredentials])"
  by (auto simp add: grpcDialOptions_eq [of "buildOptions opts"] uses_keepalive_buildOptions)

theorem keepalive_iff_supplied_witness:
  "list_all (\<lambda>opt. \<not> is_keepalive_Option opt) [WithCollectorHost ''collector''] \<and>
   grpcDialOptions (buildOptions [WithCollectorHost ''collector'']) =
     [WithTransportCredentials insecure_NewCredentials] \<and>
   list_ex is_keepalive_Option [WithKeepaliveTimeout 5, Noop] \<and>
   (\<exists>p. WithKeepaliveParams p \<in> set (grpcDialOptions (buildOptions [WithKeepaliveTimeout 5, Noop])))"
  using keepalive_iff_supplied [of "[WithCollectorHost ''collector'']"]
    keepalive_iff_supplied [of "[WithKeepaliveTimeout 5, Noop]"]
  by simp

subsection \<open>Init\<close>

lemma decimal_4317: "decimal 4317 = ''4317''"
  by (simp add: decimal.simps [of 4317] decimal.simps [of 431] decimal.simps [of 43]
    decimal.simps [of 4] digit_char_def)

lemma GetGrpcTarget_default: "GetGrpcTarget (buildOptions []) = ''localhost:4317''"
  by (simp add: buildOptions_def defaultOptions_def Options_zero_def GetGrpcTarget_def
      decimal_4317)

lemma grpcDialOptions_default:
  "grpcDialOptions (buildOptions []) = [WithTransportCredentials insecure_NewCredentials]"
  by (simp add: grpcDialOptions_eq uses_keepalive_buildOptions)

lemma not_IsNoop_default: "\<not> IsNoop (buildOptions [])"
  by (simp add: buildOptions_def defaultOptions_def Options_zero_def IsNoop_def)

lemma makeGrpcExporter_closer:
  "makeGrpcExporter ev w ctx options = (w1, Inr (ex, cl)) \<Longrightarrow>
   cl = Some (closer_of (exporter_conn ex))"
  by (auto simp add: makeGrpcExporter_def Let_def split: option.splits)

lemma Init_success_tracer:
  "Init ev w ctx appName version opts = (w', Inr fn) \<Longrightarrow> tracer w = None \<and> tracer w' \<noteq> None"
  by (auto simp add: Init_def Let_def split: if_splits prod.splits sum.splits)

lemma Init_already_initialized:
  "tracer w \<noteq> None \<Longrightarrow>
   Init ev w ctx appName version opts = (w, Inl (errors_New ''tracer already initialized''))"
  by (simp add: Init_def)

lemma Init_noop_world0:
  "Init env_ok world0 background ''svc'' ''1.0'' [Noop] =
     (world0\<lparr>tracer := Some (NoopTracer [])\<rparr>, Inr shutdown_noop)"
  by (simp add: Init_def world0_def buildOptions_def defaultOptions_def IsNoop_def
      noop_NewTracerProvider_Tracer_def)

lemma Init_default_world0:
  "Init env_ok world0 background ''svc'' ''1.0'' [] =
     (world1, Inr (shutdown_provider tp1 (Some (closer_of conn1))))"
  by (simp add: Init_def makeGrpcExporter_def not_IsNoop_default GetGrpcTarget_default
      grpcDialOptions_default Let_def world0_def world1_def env_ok_def tp1_def conn1_def
      perform_def otel_Tracer_def)

text \<open>
  C6. Once a call of \<open>Init\<close> has succeeded, a call of \<open>Init\<close> in any later state of the
  process that still holds the tracer it installed, with any arguments, returns the error
  \<open>tracer already initialized\<close> and leaves the whole state as it was: the tracer is
  not replaced, nothing is configured and no connection is attempted.
\<close>

theorem Init_twice_fails:
  assumes "Init ev0 w0 ctx0 appName0 version0 opts0 = (w1, Inr fn)"
    and "tracer w = tracer w1"
  shows "Init ev w ctx appName version opts =
         (w, Inl (errors_New ''tracer already initialized''))"
proof -
  have "tracer w1 \<noteq> None"
    using assms(1) Init_success_tracer by blast
  with assms(2) show ?thesis
    by (simp add: Init_already_initialized)
qed

theorem Init_twice_fails_witness:
  "Init env_ok world0 background ''svc'' ''1.0'' [Noop] =
     (world0\<lparr>tracer := Some (NoopTracer [])\<rparr>, Inr shutdown_noop) \<and>
   Init env_ok (world0\<lparr>tracer := Some (NoopTracer [])\<rparr>) background ''svc'' ''2.0'' [] =
     (world0\<lparr>tracer := Some (NoopTracer [])\<rparr>, Inl (ErrorString ''tracer already initialized''))"
  using Init_twice_fails [OF Init_noop_world0, of "world0\<lparr>tracer := Some (NoopTracer [])\<rparr>"
      env_ok background "''svc''" "''2.0''" "[]"] Init_noop_world0
  by (simp add: errors_New_def)

subsection \<open>The shutdown procedure\<close>

lemma call_shutdown_provider:
  "call_shutdown ev w (shutdown_provider tp (Some (closer_of c))) ctx =
     (w\<lparr>effects := effects w @ [tp_Shutdown tp, conn_Close c]\<rparr>,
      errors_Join (shutdown_errors ev))"
  by (simp add: call_closer_def perform_def shutdown_errors_def split: option.splits)

lemma errors_Join_shutdown_errors_nil:
  "errors_Join (shutdown_errors ev) = None \<longleftrightarrow> Shutdown_err ev = None \<and> Close_err ev = None"
  by (simp add: errors_Join_def shutdown_errors_def split: option.splits)

lemma Init_provider_shutdown:
  assumes "Init ev0 w0 ctx0 appName version opts = (w1, Inr fn)"
    and "\<not> IsNoop (buildOptions opts)"
  shows "\<exists>tp. fn = shutdown_provider tp (Some (closer_of (exporter_conn (tp_batcher tp)))) \<and>
     tracer w1 = Some (ProviderTracer tp [])"
  using assms
  by (auto simp add: Init_def Let_def otel_Tracer_def split: if_splits prod.splits sum.splits
      dest: makeGrpcExporter_closer)

text \<open>
  C7. The shutdown procedure that a successful \<open>Init\<close> without \<open>Noop\<close> returns, run in
  any state and whatever the two steps answer, shuts the tracer provider down and then
  closes the connection of the provider's exporter, in this order and both always. It
  returns the join of the errors of the two steps, and nil exactly when neither failed.
\<close>

theorem shutdown_attempts_both:
  assumes "Init ev0 w0 ctx0 appName version opts = (w1, Inr fn)"
    and "\<not> IsNoop (buildOptions opts)"
  shows "\<exists>tp. tracer w1 = Some (ProviderTracer tp []) \<and>
           call_shutdown ev w fn ctx =
             (w\<lparr>effects := effects w @
                  [tp_Shutdown tp, conn_Close (exporter_conn (tp_batcher tp))]\<rparr>,
              errors_Join (shutdown_errors ev)) \<and>
           (snd (call_shutdown ev w fn ctx) = None \<longleftrightarrow>
              Shutdown_err ev = None \<and> Close_err ev = None)"
proof -
  from assms obtain tp where
    fn: "fn = shutdown_provider tp (Some (closer_of (exporter_conn (tp_batcher tp))))"
    and tr: "tracer w1 = Some (ProviderTracer tp [])"
    using Init_provider_shutdown by blast
  show ?thesis
    unfolding fn call_shutdown_provider
    using tr by (simp add: errors_Join_shutdown_errors_nil)
qed

theorem shutdown_attempts_both_witness:
  "Init env_ok world0 background ''svc'' ''1.0'' [] =
     (world1, Inr (shutdown_provider tp1 (Some (closer_of conn1)))) \<and>
   \<not> IsNoop (buildOptions []) \<and>
   call_shutdown env_failing world1 (shutdown_provider tp1 (Some (closer_of conn1))) background =
     (world1\<lparr>effects := effects world1 @ [tp_Shutdown tp1, conn_Close conn1]\<rparr>,
      Some (JoinError
        [WrapError ''failed to shutdown tracer provider: context deadline exceeded''
           (ContextError context_DeadlineExceeded),
         WrapError ''failed to close tracer connection: connection is closing''
           (ErrorString ''connection is closing'')])) \<and>
   snd (call_shutdown env_ok world1 (shutdown_provider tp1 (Some (closer_of conn1))) background)
     = None"
  using shutdown_attempts_both [OF Init_default_world0 not_IsNoop_default,
      of env_failing world1 background]
    shutdown_attempts_both [OF Init_default_world0 not_IsNoop_default,
      of env_ok world1 background]
    Init_default_world0 not_IsNoop_default
  by (simp add: world1_def tp1_def env_failing_def env_ok_def shutdown_errors_def
      errors_Join_def fmt_Errorf_w_def)

subsection \<open>StartSpan\<close>

text \<open>
  C9. \<open>StartSpan\<close> returns a context and a span for every state of the process, context,
  name and list of options: it never calls \<open>Start\<close> on a nil tracer. When the
  process-wide tracer is nil, the span comes from the no-op tracer named \<open>noop\<close>, and
  the returned context carries it.
\<close>

theorem StartSpan_never_panics:
  "(\<exists>ctx' s. StartSpan w ctx name opts = Inr (ctx', s)) \<and>
   (tracer w = None \<longrightarrow>
      StartSpan w ctx name opts =
        (let sp = \<lparr>span_tracer = NoopTracer ''noop'', span_name = name,
                   span_start_opts = opts, span_calls = []\<rparr>
         in Inr (ctx\<lparr>ctx_span := Some sp\<rparr>, \<lparr>span_s = sp\<rparr>)))"
  by (cases "tracer w")
    (simp_all add: StartSpan_def tracer_Start_def noop_NewTracerProvider_Tracer_def Let_def)

theorem StartSpan_never_panics_witness:
  "tracer world0 = None \<and>
   StartSpan world0 background ''op'' [] =
     Inr (\<lparr>ctx_span = Some \<lparr>span_tracer = NoopTracer ''noop'', span_name = ''op'',
                            span_start_opts = [], span_calls = []\<rparr>\<rparr>,
          span0)"
  using StartSpan_never_panics [of world0 background "''op''" "[]"]
  by (simp add: world0_def background_def span0_def Let_def)

end
